theory Spec2Isabelle
  imports Main
begin

section \<open>Type descriptors\<close>

text \<open>
  \<^verbatim>\<open>dtype_util.py\<close> is glue over two libraries: TensorFlow's \<^verbatim>\<open>tf.DType\<close> and
  NumPy's scalar types. A descriptor is either of the two. A \<^verbatim>\<open>tf.DType\<close> is one of the
  registered kinds, plain or as its \<^verbatim>\<open>_ref\<close> variant (\<^verbatim>\<open>tf.float32\<close> is
  \<open>DType Float32 False\<close>, its reference variant \<open>DType Float32 True\<close>); a NumPy type
  (\<^verbatim>\<open>np.float32\<close>, or \<^verbatim>\<open>np.dtype('float32')\<close>, which compare equal) is \<open>NpType Float32\<close>.
  The kinds are the TensorFlow types that have a NumPy counterpart; \<^verbatim>\<open>tf.string\<close>
  corresponds to \<^verbatim>\<open>np.object_\<close>, the quantized kinds and \<^verbatim>\<open>bfloat16\<close> to the
  extension types TensorFlow registers with NumPy. The handle types \<^verbatim>\<open>resource\<close> and
  \<^verbatim>\<open>variant\<close>, which have no NumPy counterpart, are outside this model.
  All descriptors are objects that Python treats as true in a condition.
\<close>

datatype kind =
    Float16 | Float32 | Float64 | BFloat16
  | Complex64 | Complex128
  | Int8 | Int16 | Int32 | Int64
  | UInt8 | UInt16 | UInt32 | UInt64
  | Bool | String
  | QInt8 | QUInt8 | QInt16 | QUInt16 | QInt32

datatype descriptor =
    DType kind bool
  | NpType kind

fun kind_of :: "descriptor \<Rightarrow> kind" where
  "kind_of (DType k r) = k"
| "kind_of (NpType k) = k"

subsection \<open>The host libraries\<close>

text \<open>
  \<^verbatim>\<open>tf.as_dtype\<close> converts whatever names a type to the \<^verbatim>\<open>tf.DType\<close>; a \<^verbatim>\<open>tf.DType\<close> is
  returned as it is, a NumPy type becomes the plain \<^verbatim>\<open>tf.DType\<close> of its kind.
\<close>

fun as_dtype :: "descriptor \<Rightarrow> descriptor" where
  "as_dtype (DType k r) = DType k r"
| "as_dtype (NpType k) = DType k False"

text \<open>
  \<^verbatim>\<open>hasattr(dtype, ...)\<close> for the properties of \<^verbatim>\<open>tf.DType\<close> that the module probes
  (\<^verbatim>\<open>base_dtype\<close>, \<^verbatim>\<open>as_numpy_dtype\<close>, \<^verbatim>\<open>is_bool\<close>, \<^verbatim>\<open>is_complex\<close>, \<^verbatim>\<open>is_floating\<close>,
  \<^verbatim>\<open>is_integer\<close>, \<^verbatim>\<open>max\<close>, \<^verbatim>\<open>min\<close>): a \<^verbatim>\<open>tf.DType\<close> has them all, none of them callable;
  a NumPy type has none of them as a value (on \<^verbatim>\<open>np.float32\<close>, \<^verbatim>\<open>max\<close> and
  \<^verbatim>\<open>is_integer\<close> are methods, hence callable).
\<close>

fun has_dtype_properties :: "descriptor \<Rightarrow> bool" where
  "has_dtype_properties (DType k r) = True"
| "has_dtype_properties (NpType k) = False"

text \<open>The properties of \<^verbatim>\<open>tf.DType\<close>.\<close>

fun is_quantized_kind :: "kind \<Rightarrow> bool" where
  "is_quantized_kind QInt8 = True"
| "is_quantized_kind QUInt8 = True"
| "is_quantized_kind QInt16 = True"
| "is_quantized_kind QUInt16 = True"
| "is_quantized_kind QInt32 = True"
| "is_quantized_kind k = False"

text \<open>
  \<^verbatim>\<open>np.dtype(t).kind\<close>: the one-character category of a NumPy type (\<^verbatim>\<open>'b'\<close> boolean,
  \<^verbatim>\<open>'i'\<close> signed, \<^verbatim>\<open>'u'\<close> unsigned, \<^verbatim>\<open>'f'\<close> floating, \<^verbatim>\<open>'c'\<close> complex, \<^verbatim>\<open>'O'\<close> object,
  \<^verbatim>\<open>'V'\<close> for the extension types), and \<^verbatim>\<open>np.dtype(t).itemsize\<close> in bytes.
\<close>

fun np_kind :: "kind \<Rightarrow> char" where
  "np_kind Bool = CHR ''b''"
| "np_kind Int8 = CHR ''i''"
| "np_kind Int16 = CHR ''i''"
| "np_kind Int32 = CHR ''i''"
| "np_kind Int64 = CHR ''i''"
| "np_kind UInt8 = CHR ''u''"
| "np_kind UInt16 = CHR ''u''"
| "np_kind UInt32 = CHR ''u''"
| "np_kind UInt64 = CHR ''u''"
| "np_kind Float16 = CHR ''f''"
| "np_kind Float32 = CHR ''f''"
| "np_kind Float64 = CHR ''f''"
| "np_kind Complex64 = CHR ''c''"
| "np_kind Complex128 = CHR ''c''"
| "np_kind String = CHR ''O''"
| "np_kind k = CHR ''V''"

fun np_itemsize :: "kind \<Rightarrow> nat" where
  "np_itemsize Bool = 1"
| "np_itemsize Int8 = 1"
| "np_itemsize Int16 = 2"
| "np_itemsize Int32 = 4"
| "np_itemsize Int64 = 8"
| "np_itemsize UInt8 = 1"
| "np_itemsize UInt16 = 2"
| "np_itemsize UInt32 = 4"
| "np_itemsize UInt64 = 8"
| "np_itemsize Float16 = 2"
| "np_itemsize Float32 = 4"
| "np_itemsize Float64 = 8"
| "np_itemsize BFloat16 = 2"
| "np_itemsize Complex64 = 8"
| "np_itemsize Complex128 = 16"
| "np_itemsize String = 8"
| "np_itemsize QInt8 = 1"
| "np_itemsize QUInt8 = 1"
| "np_itemsize QInt16 = 2"
| "np_itemsize QUInt16 = 2"
| "np_itemsize QInt32 = 4"

text \<open>\<^verbatim>\<open>np.issubdtype(t, np.integer)\<close>, \<^verbatim>\<open>np.floating\<close> and \<^verbatim>\<open>np.complexfloating\<close>.\<close>

definition np_is_integer :: "kind \<Rightarrow> bool" where
  "np_is_integer k = (np_kind k = CHR ''i'' \<or> np_kind k = CHR ''u'')"

definition np_is_floating :: "kind \<Rightarrow> bool" where
  "np_is_floating k = (np_kind k = CHR ''f'')"

definition np_is_complexfloating :: "kind \<Rightarrow> bool" where
  "np_is_complexfloating k = (np_kind k = CHR ''c'')"

text \<open>
  \<^verbatim>\<open>tf.DType.base_dtype\<close> drops the reference qualifier, \<^verbatim>\<open>tf.DType.as_numpy_dtype\<close>
  is the NumPy type of the kind, for a reference variant too.
\<close>

definition DType_base_dtype :: "descriptor \<Rightarrow> descriptor" where
  "DType_base_dtype d = DType (kind_of d) False"

definition DType_as_numpy_dtype :: "descriptor \<Rightarrow> descriptor" where
  "DType_as_numpy_dtype d = NpType (kind_of d)"

text \<open>
  \<^verbatim>\<open>tf.DType.is_bool\<close> is \<^verbatim>\<open>base_dtype == bool\<close>; \<^verbatim>\<open>is_complex\<close> is
  \<^verbatim>\<open>base_dtype in (complex64, complex128)\<close>; \<^verbatim>\<open>is_integer\<close> is
  \<^verbatim>\<open>not is_quantized and np.issubdtype(as_numpy_dtype, np.integer)\<close>; \<^verbatim>\<open>is_floating\<close>
  is \<^verbatim>\<open>np.issubdtype(as_numpy_dtype, np.floating) or base_dtype == bfloat16\<close>.
\<close>

definition DType_is_bool :: "descriptor \<Rightarrow> bool" where
  "DType_is_bool d = (kind_of d = Bool)"

definition DType_is_complex :: "descriptor \<Rightarrow> bool" where
  "DType_is_complex d = (kind_of d = Complex64 \<or> kind_of d = Complex128)"

definition DType_is_integer :: "descriptor \<Rightarrow> bool" where
  "DType_is_integer d = (\<not> is_quantized_kind (kind_of d) \<and> np_is_integer (kind_of d))"

definition DType_is_floating :: "descriptor \<Rightarrow> bool" where
  "DType_is_floating d = (np_is_floating (kind_of d) \<or> kind_of d = BFloat16)"

section \<open>The functions of the module\<close>

text \<open>The module's global flags, \<^verbatim>\<open>False\<close> unless a caller sets them.\<close>

record config =
  JAX_MODE :: bool
  NUMPY_MODE :: bool
  SKIP_DTYPE_CHECKS :: bool

text \<open>
  \<^verbatim>\<open>
  def as_numpy_dtype(dtype):
    dtype = tf.as_dtype(dtype)
    if hasattr(dtype, 'as_numpy_dtype'):
      return dtype.as_numpy_dtype
    return dtype

  def base_dtype(dtype):
    dtype = tf.as_dtype(dtype)
    if hasattr(dtype, 'base_dtype'):
      return dtype.base_dtype
    return dtype

  def base_equal(a, b):
    return base_dtype(a) == base_dtype(b)
  \<close>
  \<^verbatim>\<open>==\<close> on two descriptors, one of them a \<^verbatim>\<open>tf.DType\<close>, is \<^verbatim>\<open>tf.DType.__eq__\<close>: it
  converts the other side with \<^verbatim>\<open>tf.as_dtype\<close> and compares the type enums, so a
  reference variant differs from its base type. Two NumPy types are equal when they are
  the same type.
\<close>

definition py_eq :: "descriptor \<Rightarrow> descriptor \<Rightarrow> bool" where
  "py_eq a b = (as_dtype a = as_dtype b)"

definition as_numpy_dtype :: "descriptor \<Rightarrow> descriptor" where
  "as_numpy_dtype d =
     (let dtype = as_dtype d in
      if has_dtype_properties dtype then DType_as_numpy_dtype dtype else dtype)"

definition base_dtype :: "descriptor \<Rightarrow> descriptor" where
  "base_dtype d =
     (let dtype = as_dtype d in
      if has_dtype_properties dtype then DType_base_dtype dtype else dtype)"

definition base_equal :: "descriptor \<Rightarrow> descriptor \<Rightarrow> bool" where
  "base_equal a b = py_eq (base_dtype a) (base_dtype b)"

subsection \<open>Category predicates\<close>

text \<open>
  \<^verbatim>\<open>
  def is_bool(dtype):
    dtype = tf.as_dtype(dtype)
    if hasattr(dtype, 'is_bool'):
      return dtype.is_bool
    return np.dtype(dtype).kind == 'b'
  \<close>
  and alike \<^verbatim>\<open>is_complex\<close>, \<^verbatim>\<open>is_floating\<close> and \<^verbatim>\<open>is_integer\<close>, which fall back on
  \<^verbatim>\<open>np.issubdtype\<close>.
\<close>

definition is_bool :: "descriptor \<Rightarrow> bool" where
  "is_bool d =
     (let dtype = as_dtype d in
      if has_dtype_properties dtype then DType_is_bool dtype
      else np_kind (kind_of dtype) = CHR ''b'')"

definition is_complex :: "descriptor \<Rightarrow> bool" where
  "is_complex d =
     (let dtype = as_dtype d in
      if has_dtype_properties dtype then DType_is_complex dtype
      else np_is_complexfloating (kind_of dtype))"

definition is_floating :: "descriptor \<Rightarrow> bool" where
  "is_floating d =
     (let dtype = as_dtype d in
      if has_dtype_properties dtype then DType_is_floating dtype
      else np_is_floating (kind_of dtype))"

definition is_integer :: "descriptor \<Rightarrow> bool" where
  "is_integer d =
     (let dtype = as_dtype d in
      if has_dtype_properties dtype then DType_is_integer dtype
      else np_is_integer (kind_of dtype))"

subsection \<open>Errors\<close>

text \<open>
  An exception is its Python class and its message; a message is its format string
  (the constructor) and the values formatted into it.
  \<^item> \<open>Found_incompatible_dtypes_seen\<close>:
    \<^verbatim>\<open>'Found incompatible dtypes, {} and {}. Seen so far: {}'\<close> (\<^verbatim>\<open>common_dtype\<close>);
  \<^item> \<open>Found_incompatible_dtypes\<close>: \<^verbatim>\<open>'Found incompatible dtypes, {} and {}.'\<close>
    (\<^verbatim>\<open>convert_to_dtype\<close>);
  \<^item> \<open>Must_be_of_the_same_type\<close>: \<^verbatim>\<open>'{}, type={}, must be of the same type ({}){}.'\<close>;
  \<^item> \<open>Expected_floating_point_type\<close>: \<^verbatim>\<open>'Expected floating point type, got {}.'\<close>;
  \<^item> \<open>Cannot_find_maximum\<close>, \<open>Cannot_find_minimum\<close>: raised by \<^verbatim>\<open>tf.DType.max\<close> and
    \<^verbatim>\<open>tf.DType.min\<close>;
  \<^item> \<open>Invalid_integer_data_type\<close>, \<open>Data_type_not_inexact\<close>: raised by \<^verbatim>\<open>np.iinfo\<close> and
    \<^verbatim>\<open>np.finfo\<close>;
  \<^item> \<open>Cannot_convert_to_DType\<close>: raised by \<^verbatim>\<open>tf.as_dtype(None)\<close>;
  \<^item> \<open>No_add_loop\<close>: NumPy's \<^verbatim>\<open>add\<close> has no loop for the two types;
  \<^item> \<open>Unsupported_operand\<close>: raised by Python's \<^verbatim>\<open>+\<close> inside the object loop of
    \<^verbatim>\<open>add\<close>;
  \<^item> \<open>Host_message\<close>: any other message of the host libraries.
\<close>

datatype message =
    Found_incompatible_dtypes_seen descriptor descriptor "descriptor option list"
  | Found_incompatible_dtypes descriptor descriptor
  | Must_be_of_the_same_type string descriptor descriptor string
  | Expected_floating_point_type descriptor
  | Cannot_find_maximum descriptor
  | Cannot_find_minimum descriptor
  | Invalid_integer_data_type kind
  | Data_type_not_inexact kind
  | Cannot_convert_to_DType
  | No_add_loop descriptor descriptor
  | Unsupported_operand descriptor descriptor
  | Host_message string

datatype error =
    TypeError message
  | ValueError message
  | AttributeError

subsection \<open>Bounds\<close>

text \<open>
  A bound is an exact integer, or the largest (smallest) finite value of a floating-point
  type, which is left symbolic.
\<close>

datatype bound = IntBound int | FloatMax kind | FloatMin kind

text \<open>
  \<^verbatim>\<open>np.iinfo(t)\<close> has \<^verbatim>\<open>bits = itemsize * 8\<close>; for kind \<^verbatim>\<open>'u'\<close>, \<^verbatim>\<open>min\<close> is 0 and
  \<^verbatim>\<open>max\<close> is \<^verbatim>\<open>(1 << bits) - 1\<close>; for kind \<^verbatim>\<open>'i'\<close>, \<^verbatim>\<open>min\<close> is
  \<^verbatim>\<open>-(1 << (bits-1))\<close> and \<^verbatim>\<open>max\<close> is \<^verbatim>\<open>(1 << (bits-1)) - 1\<close>; any other kind is a
  \<^verbatim>\<open>ValueError\<close>. \<^verbatim>\<open>np.finfo\<close> takes floating and complex types only.
\<close>

definition np_bits :: "kind \<Rightarrow> nat" where
  "np_bits k = np_itemsize k * 8"

definition np_iinfo_max :: "kind \<Rightarrow> error + bound" where
  "np_iinfo_max k =
     (if np_kind k = CHR ''u'' then Inr (IntBound (2 ^ np_bits k - 1))
      else if np_kind k = CHR ''i'' then Inr (IntBound (2 ^ (np_bits k - 1) - 1))
      else Inl (ValueError (Invalid_integer_data_type k)))"

definition np_iinfo_min :: "kind \<Rightarrow> error + bound" where
  "np_iinfo_min k =
     (if np_kind k = CHR ''u'' then Inr (IntBound 0)
      else if np_kind k = CHR ''i'' then Inr (IntBound (- (2 ^ (np_bits k - 1))))
      else Inl (ValueError (Invalid_integer_data_type k)))"

definition np_finfo_max :: "kind \<Rightarrow> error + bound" where
  "np_finfo_max k =
     (if np_is_floating k \<or> np_is_complexfloating k then Inr (FloatMax k)
      else Inl (ValueError (Data_type_not_inexact k)))"

definition np_finfo_min :: "kind \<Rightarrow> error + bound" where
  "np_finfo_min k =
     (if np_is_floating k \<or> np_is_complexfloating k then Inr (FloatMin k)
      else Inl (ValueError (Data_type_not_inexact k)))"

text \<open>
  \<^verbatim>\<open>tf.DType.max\<close> raises \<^verbatim>\<open>TypeError\<close> for a quantized type and for \<^verbatim>\<open>bool\<close>,
  \<^verbatim>\<open>string\<close>, \<^verbatim>\<open>complex64\<close> and \<^verbatim>\<open>complex128\<close>; otherwise it tries \<^verbatim>\<open>np.finfo\<close>, then
  \<^verbatim>\<open>np.iinfo\<close>, then the constant of \<^verbatim>\<open>bfloat16\<close>. \<^verbatim>\<open>tf.DType.min\<close> alike.
\<close>

definition DType_no_bounds :: "kind \<Rightarrow> bool" where
  "DType_no_bounds k =
     (is_quantized_kind k \<or> k = Bool \<or> k = String \<or> k = Complex64 \<or> k = Complex128)"

definition DType_max :: "descriptor \<Rightarrow> error + bound" where
  "DType_max d =
     (let k = kind_of d in
      if DType_no_bounds k then Inl (TypeError (Cannot_find_maximum d))
      else (case np_finfo_max k of
          Inr v \<Rightarrow> Inr v
        | Inl _ \<Rightarrow> (case np_iinfo_max k of
              Inr v \<Rightarrow> Inr v
            | Inl _ \<Rightarrow> if k = BFloat16 then Inr (FloatMax BFloat16)
                else Inl (TypeError (Cannot_find_maximum d)))))"

definition DType_min :: "descriptor \<Rightarrow> error + bound" where
  "DType_min d =
     (let k = kind_of d in
      if DType_no_bounds k then Inl (TypeError (Cannot_find_minimum d))
      else (case np_finfo_min k of
          Inr v \<Rightarrow> Inr v
        | Inl _ \<Rightarrow> (case np_iinfo_min k of
              Inr v \<Rightarrow> Inr v
            | Inl _ \<Rightarrow> if k = BFloat16 then Inr (FloatMin BFloat16)
                else Inl (TypeError (Cannot_find_minimum d)))))"

text \<open>
  \<^verbatim>\<open>
  def max(dtype):
    dtype = tf.as_dtype(dtype)
    if hasattr(dtype, 'max') and not callable(dtype.max):
      return dtype.max
    use_finfo = is_floating(dtype) or is_complex(dtype)
    return np.finfo(dtype).max if use_finfo else np.iinfo(dtype).max
  \<close>
  On a \<^verbatim>\<open>tf.DType\<close>, \<^verbatim>\<open>max\<close> is a property: \<^verbatim>\<open>hasattr\<close> evaluates it, and a
  \<^verbatim>\<open>TypeError\<close> it raises is not caught by \<^verbatim>\<open>hasattr\<close> (which catches
  \<^verbatim>\<open>AttributeError\<close> only): it leaves the function.
\<close>

definition max_dtype :: "descriptor \<Rightarrow> error + bound" where
  "max_dtype d =
     (let dtype = as_dtype d in
      if has_dtype_properties dtype then DType_max dtype
      else let use_finfo = is_floating dtype \<or> is_complex dtype in
        if use_finfo then np_finfo_max (kind_of dtype) else np_iinfo_max (kind_of dtype))"

definition min_dtype :: "descriptor \<Rightarrow> error + bound" where
  "min_dtype d =
     (let dtype = as_dtype d in
      if has_dtype_properties dtype then DType_min dtype
      else let use_finfo = is_floating dtype \<or> is_complex dtype in
        if use_finfo then np_finfo_min (kind_of dtype) else np_iinfo_min (kind_of dtype))"

subsection \<open>Values that may carry a descriptor\<close>

text \<open>
  What the module reads of a Python object: its \<^verbatim>\<open>dtype\<close> attribute (absent, \<^verbatim>\<open>None\<close>
  or a descriptor), its \<^verbatim>\<open>name\<close> attribute when it has one, and its \<^verbatim>\<open>str\<close>. Python's
  \<^verbatim>\<open>None\<close> is \<open>None :: pyobj option\<close>.
\<close>

datatype dtype_attr = NoDtypeAttr | DtypeNone | Dtype descriptor

record pyobj =
  obj_dtype :: dtype_attr
  obj_name :: "string option"
  obj_str :: string

text \<open>
  \<^verbatim>\<open>tf.nest.flatten\<close> lists the leaves of a nested structure from left to right; a value
  that is not a sequence is a structure of one leaf.
\<close>

datatype 'a nest = Leaf 'a | Seq "'a nest list"

fun flatten :: "'a nest \<Rightarrow> 'a list" where
  "flatten (Leaf a) = [a]"
| "flatten (Seq ns) = concat (map flatten ns)"

subsection \<open>\<^verbatim>\<open>common_dtype\<close>\<close>

text \<open>
  \<^verbatim>\<open>
  def common_dtype(args_list, dtype_hint=None):
    dtype = None
    seen = []
    for a in tf.nest.flatten(args_list):
      if hasattr(a, 'dtype') and a.dtype:
        dt = as_numpy_dtype(a.dtype)
        seen.append(dt)
      else:
        seen.append(None)
        continue
      if dtype is None:
        dtype = dt
      elif dtype != dt:
        if SKIP_DTYPE_CHECKS:
          dtype = (np.ones([2], dtype) + np.ones([2], dt)).dtype
        else:
          raise TypeError(
              'Found incompatible dtypes, {} and {}. Seen so far: {}'.format(
                  dtype, dt, seen))
    return dtype_hint if dtype is None else base_dtype(dtype)
  \<close>
  \<open>truthy_dtype a\<close> is the condition \<^verbatim>\<open>hasattr(a, 'dtype') and a.dtype\<close> together with
  the descriptor it reads. The type of the sum of two NumPy arrays is decided by NumPy
  and by the types the host registers with it: the loop takes it as the function
  \<open>np_add\<close>, which may fail.
\<close>

fun truthy_dtype :: "pyobj option \<Rightarrow> descriptor option" where
  "truthy_dtype None = None"
| "truthy_dtype (Some a) =
     (case obj_dtype a of Dtype d \<Rightarrow> Some d | NoDtypeAttr \<Rightarrow> None | DtypeNone \<Rightarrow> None)"

fun common_dtype_loop ::
  "config \<Rightarrow> (descriptor \<Rightarrow> descriptor \<Rightarrow> error + descriptor) \<Rightarrow> pyobj option list
     \<Rightarrow> descriptor option \<Rightarrow> descriptor option list \<Rightarrow> error + descriptor option" where
  "common_dtype_loop cfg np_add [] dtype seen = Inr dtype"
| "common_dtype_loop cfg np_add (a # rest) dtype seen =
     (case truthy_dtype a of
        None \<Rightarrow> common_dtype_loop cfg np_add rest dtype (seen @ [None])
      | Some d \<Rightarrow>
          (let dt = as_numpy_dtype d; seen' = seen @ [Some dt] in
           case dtype of
             None \<Rightarrow> common_dtype_loop cfg np_add rest (Some dt) seen'
           | Some cur \<Rightarrow>
               if \<not> py_eq cur dt then
                 if SKIP_DTYPE_CHECKS cfg then
                   (case np_add cur dt of
                      Inl e \<Rightarrow> Inl e
                    | Inr p \<Rightarrow> common_dtype_loop cfg np_add rest (Some p) seen')
                 else Inl (TypeError (Found_incompatible_dtypes_seen cur dt seen'))
               else common_dtype_loop cfg np_add rest dtype seen'))"

definition common_dtype ::
  "config \<Rightarrow> (descriptor \<Rightarrow> descriptor \<Rightarrow> error + descriptor) \<Rightarrow> pyobj option nest
     \<Rightarrow> descriptor option \<Rightarrow> error + descriptor option" where
  "common_dtype cfg np_add args_list dtype_hint =
     (case common_dtype_loop cfg np_add (flatten args_list) None [] of
        Inl e \<Rightarrow> Inl e
      | Inr dtype \<Rightarrow>
          Inr (case dtype of None \<Rightarrow> dtype_hint | Some d \<Rightarrow> Some (base_dtype d)))"

text \<open>
  NumPy's own addition. For two arrays \<^verbatim>\<open>add\<close> runs the first of its loops to which
  both operands can be cast safely, and the result has the type of that loop. The loops
  registered for an extension type are tried first (with \<^verbatim>\<open>bfloat16\<close> comes the loop of
  two \<^verbatim>\<open>bfloat16\<close>), then the loops of the built-in types in their order; the object loop
  is tried only when an operand is an object array. The safe casts:
  \<^item> every type casts safely to itself and to \<^verbatim>\<open>object\<close>, and \<^verbatim>\<open>object\<close> to nothing else;
  \<^item> a quantized type (a structured NumPy type) casts safely to nothing else, and nothing
    else to it;
  \<^item> \<^verbatim>\<open>bfloat16\<close> casts safely to \<^verbatim>\<open>float32\<close>, \<^verbatim>\<open>float64\<close>, \<^verbatim>\<open>complex64\<close> and
    \<^verbatim>\<open>complex128\<close>, and \<^verbatim>\<open>bool\<close>, \<^verbatim>\<open>int8\<close> and \<^verbatim>\<open>uint8\<close> cast safely to \<^verbatim>\<open>bfloat16\<close>
    (the casts registered with the type);
  \<^item> between the built-in numeric types, the casts that lose no value: \<^verbatim>\<open>bool\<close> to
    all, an integer to a wider integer of its signedness, an unsigned integer to a
    strictly wider signed one, an integer to a floating or complex type whose mantissa
    holds it (\<^verbatim>\<open>float64\<close> and \<^verbatim>\<open>complex128\<close> for all), a floating type to a wider one and
    to a complex one of at least its precision, a complex type to a wider one.
  The object loop adds the elements with Python's \<^verbatim>\<open>+\<close>: the elements of \<^verbatim>\<open>np.ones\<close> of
  an object array are the integer 1, those of a structured array are tuples, and the sum
  of the two is a \<^verbatim>\<open>TypeError\<close>.
\<close>

definition np_can_cast_safe :: "kind \<Rightarrow> kind \<Rightarrow> bool" where
  "np_can_cast_safe a t =
     (let ca = np_kind a; ct = np_kind t; sa = np_itemsize a; st = np_itemsize t in
      if a = t then True
      else if t = String then True
      else if a = String then False
      else if is_quantized_kind a \<or> is_quantized_kind t then False
      else if a = BFloat16 then t = Float32 \<or> t = Float64 \<or> t = Complex64 \<or> t = Complex128
      else if t = BFloat16 then a = Bool \<or> a = Int8 \<or> a = UInt8
      else if ca = CHR ''b'' then True
      else if ca = CHR ''u'' then
        (ct = CHR ''u'' \<and> sa \<le> st) \<or> (ct = CHR ''i'' \<and> sa < st)
        \<or> (ct = CHR ''f'' \<and> (sa < st \<or> st = 8)) \<or> (ct = CHR ''c'' \<and> (2 * sa < st \<or> st = 16))
      else if ca = CHR ''i'' then
        (ct = CHR ''i'' \<and> sa \<le> st)
        \<or> (ct = CHR ''f'' \<and> (sa < st \<or> st = 8)) \<or> (ct = CHR ''c'' \<and> (2 * sa < st \<or> st = 16))
      else if ca = CHR ''f'' then
        (ct = CHR ''f'' \<and> sa \<le> st) \<or> (ct = CHR ''c'' \<and> 2 * sa \<le> st)
      else if ca = CHR ''c'' then ct = CHR ''c'' \<and> sa \<le> st
      else False)"

definition np_add_loops :: "kind \<Rightarrow> kind \<Rightarrow> kind list" where
  "np_add_loops a b =
     (if a = BFloat16 \<or> b = BFloat16 then [BFloat16] else [])
     @ [Bool, Int8, UInt8, Int16, UInt16, Int32, UInt32, Int64, UInt64,
        Float16, Float32, Float64, Complex64, Complex128]
     @ (if a = String \<or> b = String then [String] else [])"

definition numpy_add_dtype :: "descriptor \<Rightarrow> descriptor \<Rightarrow> error + descriptor" where
  "numpy_add_dtype a b =
     (case find (\<lambda>t. np_can_cast_safe (kind_of a) t \<and> np_can_cast_safe (kind_of b) t)
             (np_add_loops (kind_of a) (kind_of b)) of
        None \<Rightarrow> Inl (TypeError (No_add_loop a b))
      | Some t \<Rightarrow>
          if t = String \<and> (is_quantized_kind (kind_of a) \<or> is_quantized_kind (kind_of b))
          then Inl (TypeError (Unsupported_operand a b))
          else Inr (NpType t))"

subsection \<open>\<^verbatim>\<open>convert_to_dtype\<close>\<close>

text \<open>
  \<^verbatim>\<open>
  def convert_to_dtype(tensor_or_dtype, dtype=None, dtype_hint=None):
    if tensor_or_dtype is None:
      return dtype or dtype_hint
    if tf.is_tensor(tensor_or_dtype):
      dt = base_dtype(tensor_or_dtype.dtype)
    elif isinstance(tensor_or_dtype, tf.DType):
      dt = base_dtype(tensor_or_dtype)
    elif isinstance(tensor_or_dtype, np.ndarray):
      dt = base_dtype(dtype or dtype_hint or tensor_or_dtype.dtype)
    elif np.issctype(tensor_or_dtype):
      dt = base_dtype(dtype or dtype_hint or tensor_or_dtype)
    else:
      dt = tf.convert_to_tensor(tensor_or_dtype, dtype, dtype_hint).dtype
    if not SKIP_DTYPE_CHECKS and dtype and not base_equal(dtype, dt):
      raise TypeError('Found incompatible dtypes, {} and {}.'.format(dtype, dt))
    return dt
  \<close>
  The first argument is classified as the chain of tests does, each class with the
  descriptor the branch reads: the \<^verbatim>\<open>dtype\<close> of a tensor, a \<^verbatim>\<open>tf.DType\<close> itself, the
  \<^verbatim>\<open>dtype\<close> of an array, a NumPy scalar type itself. Any other object goes to
  \<^verbatim>\<open>tf.convert_to_tensor\<close>, a function of the host that the model takes as the
  parameter \<open>convert_to_tensor\<close>: it returns the \<^verbatim>\<open>dtype\<close> of the tensor, or fails.
\<close>

datatype 'v tensor_or_dtype =
    IsNone
  | IsTensor descriptor
  | IsDType descriptor
  | IsNdArray descriptor
  | IsScType descriptor
  | IsOther 'v

text \<open>\<^verbatim>\<open>a or b\<close>, for \<^verbatim>\<open>a\<close> a descriptor or \<^verbatim>\<open>None\<close>.\<close>

fun py_or :: "descriptor option \<Rightarrow> descriptor option \<Rightarrow> descriptor option" where
  "py_or (Some a) b = Some a"
| "py_or None b = b"

fun py_or_else :: "descriptor option \<Rightarrow> descriptor \<Rightarrow> descriptor" where
  "py_or_else (Some a) b = a"
| "py_or_else None b = b"

text \<open>The last two statements of \<^verbatim>\<open>convert_to_dtype\<close>, on the resolved \<open>dt\<close>.\<close>

fun check_dtype :: "config \<Rightarrow> descriptor option \<Rightarrow> descriptor \<Rightarrow> error + descriptor option" where
  "check_dtype cfg None dt = Inr (Some dt)"
| "check_dtype cfg (Some dtype) dt =
     (if \<not> SKIP_DTYPE_CHECKS cfg \<and> \<not> base_equal dtype dt
      then Inl (TypeError (Found_incompatible_dtypes dtype dt))
      else Inr (Some dt))"

fun convert_to_dtype ::
  "config \<Rightarrow> ('v \<Rightarrow> descriptor option \<Rightarrow> descriptor option \<Rightarrow> error + descriptor)
     \<Rightarrow> 'v tensor_or_dtype \<Rightarrow> descriptor option \<Rightarrow> descriptor option
     \<Rightarrow> error + descriptor option" where
  "convert_to_dtype cfg convert_to_tensor IsNone dtype dtype_hint =
     Inr (py_or dtype dtype_hint)"
| "convert_to_dtype cfg convert_to_tensor (IsTensor t) dtype dtype_hint =
     check_dtype cfg dtype (base_dtype t)"
| "convert_to_dtype cfg convert_to_tensor (IsDType t) dtype dtype_hint =
     check_dtype cfg dtype (base_dtype t)"
| "convert_to_dtype cfg convert_to_tensor (IsNdArray t) dtype dtype_hint =
     check_dtype cfg dtype (base_dtype (py_or_else dtype (py_or_else dtype_hint t)))"
| "convert_to_dtype cfg convert_to_tensor (IsScType t) dtype dtype_hint =
     check_dtype cfg dtype (base_dtype (py_or_else dtype (py_or_else dtype_hint t)))"
| "convert_to_dtype cfg convert_to_tensor (IsOther v) dtype dtype_hint =
     (case convert_to_tensor v dtype dtype_hint of
        Inl e \<Rightarrow> Inl e
      | Inr dt \<Rightarrow> check_dtype cfg dtype dt)"

subsection \<open>\<^verbatim>\<open>assert_same_float_dtype\<close>\<close>

text \<open>
  \<^verbatim>\<open>
  def _assert_same_base_type(items, expected_type=None):
    original_expected_type = expected_type
    mismatch = False
    for item in items:
      if item is not None:
        item_type = base_dtype(item.dtype)
        if expected_type is None:
          expected_type = item_type
        elif expected_type != item_type:
          mismatch = True
          break
    if mismatch:
      expected_type = original_expected_type
      original_item_str = None
      get_name = lambda x: x.name if hasattr(x, 'name') else str(x)
      for item in items:
        if item is not None:
          item_type = base_dtype(item.dtype)
          if not expected_type:
            expected_type = item_type
            original_item_str = get_name(item)
          elif expected_type != item_type:
            raise ValueError(
                '{}, type={}, must be of the same type ({}){}.'.format(
                    get_name(item), item_type, expected_type,
                    ((' as {}'.format(original_item_str))
                     if original_item_str else '')))
      return expected_type  # Should be unreachable
    else:
      return expected_type
  \<close>
  \<open>item_type\<close> is \<^verbatim>\<open>base_dtype(item.dtype)\<close>: reading a missing attribute is an
  \<^verbatim>\<open>AttributeError\<close>, and \<^verbatim>\<open>tf.as_dtype(None)\<close> a \<^verbatim>\<open>TypeError\<close>. The first loop
  returns the pair of \<^verbatim>\<open>mismatch\<close> and \<^verbatim>\<open>expected_type\<close>; the second loop, which
  builds the message, ends in the error or, where the source says "Should be
  unreachable", in \<open>Inr\<close> of its \<^verbatim>\<open>expected_type\<close>.
\<close>

definition item_type :: "pyobj \<Rightarrow> error + descriptor" where
  "item_type item =
     (case obj_dtype item of
        NoDtypeAttr \<Rightarrow> Inl AttributeError
      | DtypeNone \<Rightarrow> Inl (TypeError Cannot_convert_to_DType)
      | Dtype d \<Rightarrow> Inr (base_dtype d))"

definition get_name :: "pyobj \<Rightarrow> string" where
  "get_name x = (case obj_name x of Some n \<Rightarrow> n | None \<Rightarrow> obj_str x)"

text \<open>\<^verbatim>\<open>(' as {}'.format(original_item_str)) if original_item_str else ''\<close>\<close>

fun as_original :: "string option \<Rightarrow> string" where
  "as_original None = []"
| "as_original (Some n) = (if n = [] then [] else '' as '' @ n)"

fun first_pass ::
  "pyobj option list \<Rightarrow> descriptor option \<Rightarrow> error + (bool \<times> descriptor option)" where
  "first_pass [] expected_type = Inr (False, expected_type)"
| "first_pass (None # items) expected_type = first_pass items expected_type"
| "first_pass (Some item # items) expected_type =
     (case item_type item of
        Inl e \<Rightarrow> Inl e
      | Inr ty \<Rightarrow>
          (case expected_type of
             None \<Rightarrow> first_pass items (Some ty)
           | Some ex \<Rightarrow>
               if \<not> py_eq ex ty then Inr (True, expected_type)
               else first_pass items expected_type))"

fun second_pass ::
  "pyobj option list \<Rightarrow> descriptor option \<Rightarrow> string option \<Rightarrow> error + descriptor option" where
  "second_pass [] expected_type original_item_str = Inr expected_type"
| "second_pass (None # items) expected_type original_item_str =
     second_pass items expected_type original_item_str"
| "second_pass (Some item # items) expected_type original_item_str =
     (case item_type item of
        Inl e \<Rightarrow> Inl e
      | Inr ty \<Rightarrow>
          (case expected_type of
             None \<Rightarrow> second_pass items (Some ty) (Some (get_name item))
           | Some ex \<Rightarrow>
               if \<not> py_eq ex ty then
                 Inl (ValueError (Must_be_of_the_same_type (get_name item) ty ex
                        (as_original original_item_str)))
               else second_pass items expected_type original_item_str))"

definition assert_same_base_type ::
  "pyobj option list \<Rightarrow> descriptor option \<Rightarrow> error + descriptor option" where
  "assert_same_base_type items expected_type =
     (case first_pass items expected_type of
        Inl e \<Rightarrow> Inl e
      | Inr (mismatch, expected_type') \<Rightarrow>
          if mismatch then second_pass items expected_type None
          else Inr expected_type')"

text \<open>
  \<^verbatim>\<open>
  def assert_same_float_dtype(tensors=None, dtype=None):
    if tensors:
      dtype = _assert_same_base_type(tensors, dtype)
    if not dtype:
      dtype = tf.float32
    elif not is_floating(dtype):
      raise ValueError('Expected floating point type, got {}.'.format(dtype))
    return dtype
  \<close>
  \<^verbatim>\<open>tensors\<close> is \<^verbatim>\<open>None\<close> or a list; both \<^verbatim>\<open>None\<close> and the empty list are false.
  \<open>validated_type\<close> is the first statement: the value of \<^verbatim>\<open>dtype\<close> after it, or its
  error.
\<close>

fun validated_type ::
  "pyobj option list option \<Rightarrow> descriptor option \<Rightarrow> error + descriptor option" where
  "validated_type None dtype = Inr dtype"
| "validated_type (Some []) dtype = Inr dtype"
| "validated_type (Some tensors) dtype = assert_same_base_type tensors dtype"

definition assert_same_float_dtype ::
  "pyobj option list option \<Rightarrow> descriptor option \<Rightarrow> error + descriptor" where
  "assert_same_float_dtype tensors dtype =
     (case validated_type tensors dtype of
        Inl e \<Rightarrow> Inl e
      | Inr None \<Rightarrow> Inr (DType Float32 False)
      | Inr (Some dtype') \<Rightarrow>
          if \<not> is_floating dtype' then Inl (ValueError (Expected_floating_point_type dtype'))
          else Inr dtype')"

subsection \<open>Sample values\<close>

text \<open>
  The flags as the module sets them, and a graph item (a tensor, say) with a \<^verbatim>\<open>dtype\<close>
  and a \<^verbatim>\<open>name\<close>.
\<close>

definition default_config :: config where
  "default_config = \<lparr>JAX_MODE = False, NUMPY_MODE = False, SKIP_DTYPE_CHECKS = False\<rparr>"

definition tensor :: "descriptor \<Rightarrow> string \<Rightarrow> pyobj option" where
  "tensor d n = Some \<lparr>obj_dtype = Dtype d, obj_name = Some n, obj_str = n\<rparr>"

section \<open>Properties\<close>

lemma as_dtype_DType: "as_dtype d = DType (kind_of d) (case d of DType k r \<Rightarrow> r | NpType k \<Rightarrow> False)"
  by (cases d) simp_all

lemma base_dtype_eq: "base_dtype d = DType (kind_of d) False"
  by (cases d) (simp_all add: base_dtype_def DType_base_dtype_def)

lemma as_numpy_dtype_eq: "as_numpy_dtype d = NpType (kind_of d)"
  by (cases d) (simp_all add: as_numpy_dtype_def DType_as_numpy_dtype_def)

lemma base_equal_kind: "base_equal a b \<longleftrightarrow> kind_of a = kind_of b"
  by (simp add: base_equal_def py_eq_def base_dtype_eq)

text \<open>
  C7. \<^verbatim>\<open>base_dtype\<close> is idempotent: for every descriptor, taking the base form of a
  base form gives the base form.
\<close>

theorem base_dtype_idempotent: "base_dtype (base_dtype d) = base_dtype d"
  by (simp add: base_dtype_eq)

subsection \<open>Categories\<close>

lemma is_bool_kind: "is_bool d \<longleftrightarrow> kind_of d = Bool"
  by (cases d) (simp_all add: is_bool_def DType_is_bool_def)

lemma is_complex_kind: "is_complex d \<longleftrightarrow> kind_of d = Complex64 \<or> kind_of d = Complex128"
  by (cases d) (simp_all add: is_complex_def DType_is_complex_def)

lemma is_floating_kind:
  "is_floating d \<longleftrightarrow> kind_of d \<in> {Float16, Float32, Float64, BFloat16}"
  by (cases d; cases "kind_of d")
    (simp_all add: is_floating_def DType_is_floating_def np_is_floating_def)

lemma is_integer_kind:
  "is_integer d \<longleftrightarrow> kind_of d \<in> {Int8, Int16, Int32, Int64, UInt8, UInt16, UInt32, UInt64}"
  by (cases d; cases "kind_of d")
    (simp_all add: is_integer_def DType_is_integer_def np_is_integer_def)

text \<open>
  C8. For every descriptor, no two of \<^verbatim>\<open>is_bool\<close>, \<^verbatim>\<open>is_integer\<close>, \<^verbatim>\<open>is_floating\<close> and
  \<^verbatim>\<open>is_complex\<close> hold together, and on a quantized type and on \<^verbatim>\<open>string\<close> all four are
  false.
\<close>

theorem categories_exclusive:
  "\<not> (is_bool d \<and> is_integer d) \<and> \<not> (is_bool d \<and> is_floating d)
   \<and> \<not> (is_bool d \<and> is_complex d) \<and> \<not> (is_integer d \<and> is_floating d)
   \<and> \<not> (is_integer d \<and> is_complex d) \<and> \<not> (is_floating d \<and> is_complex d)
   \<and> (is_quantized_kind (kind_of d) \<or> kind_of d = String \<longrightarrow>
        \<not> is_bool d \<and> \<not> is_integer d \<and> \<not> is_floating d \<and> \<not> is_complex d)"
  by (cases "kind_of d")
    (simp_all add: is_bool_kind is_complex_kind is_floating_kind is_integer_kind)

theorem categories_exclusive_witness:
  "is_quantized_kind (kind_of (DType QInt8 False))
   \<and> \<not> is_bool (DType QInt8 False) \<and> \<not> is_integer (DType QInt8 False)
   \<and> \<not> is_floating (DType QInt8 False) \<and> \<not> is_complex (DType QInt8 False)
   \<and> is_floating (NpType Float32) \<and> \<not> is_integer (NpType Float32)"
  using categories_exclusive [of "DType QInt8 False"] categories_exclusive [of "NpType Float32"]
  by (simp add: is_floating_kind)

subsection \<open>Bounds\<close>

lemma kind_of_as_dtype: "kind_of (as_dtype d) = kind_of d"
  by (cases d) simp_all

lemma max_dtype_DType: "max_dtype d = DType_max (as_dtype d)"
  by (cases d) (simp_all add: max_dtype_def)

lemma min_dtype_DType: "min_dtype d = DType_min (as_dtype d)"
  by (cases d) (simp_all add: min_dtype_def)

text \<open>
  C9. On an integer descriptor \<^verbatim>\<open>max\<close> and \<^verbatim>\<open>min\<close> return the exact bounds of its width:
  \<open>2\<^sup>w\<^sup>-\<^sup>1 - 1\<close> and \<open>-2\<^sup>w\<^sup>-\<^sup>1\<close> for a signed type of \<open>w\<close> bits, \<open>2\<^sup>w - 1\<close> and \<open>0\<close> for an
  unsigned one; on \<^verbatim>\<open>int8\<close> they are 127 and -128. On a descriptor that is neither
  integer nor floating nor complex, such as \<^verbatim>\<open>bool\<close>, both fail with a \<^verbatim>\<open>TypeError\<close>.
\<close>

theorem integer_bounds:
  "max_dtype (DType Int8 r) = Inr (IntBound 127)
   \<and> min_dtype (DType Int8 r) = Inr (IntBound (- 128))
   \<and> (is_integer d \<longrightarrow>
        max_dtype d = Inr (IntBound
          (if np_kind (kind_of d) = CHR ''i'' then 2 ^ (8 * np_itemsize (kind_of d) - 1) - 1
           else 2 ^ (8 * np_itemsize (kind_of d)) - 1))
        \<and> min_dtype d = Inr (IntBound
          (if np_kind (kind_of d) = CHR ''i'' then - (2 ^ (8 * np_itemsize (kind_of d) - 1))
           else 0)))
   \<and> (\<not> is_integer d \<and> \<not> is_floating d \<and> \<not> is_complex d \<longrightarrow>
        max_dtype d = Inl (TypeError (Cannot_find_maximum (as_dtype d)))
        \<and> min_dtype d = Inl (TypeError (Cannot_find_minimum (as_dtype d))))
   \<and> max_dtype (DType Bool r) = Inl (TypeError (Cannot_find_maximum (DType Bool r)))
   \<and> min_dtype (DType Bool r) = Inl (TypeError (Cannot_find_minimum (DType Bool r)))"
  by (cases "kind_of d")
    (simp_all add: max_dtype_DType min_dtype_DType DType_max_def DType_min_def
      kind_of_as_dtype DType_no_bounds_def np_finfo_max_def np_finfo_min_def
      np_iinfo_max_def np_iinfo_min_def np_is_floating_def np_is_complexfloating_def
      np_bits_def is_integer_kind is_floating_kind is_complex_kind)

theorem integer_bounds_witness:
  "is_integer (NpType Int64)
   \<and> max_dtype (NpType Int64) = Inr (IntBound 9223372036854775807)
   \<and> min_dtype (NpType Int64) = Inr (IntBound (- 9223372036854775808))
   \<and> is_integer (DType UInt16 True)
   \<and> max_dtype (DType UInt16 True) = Inr (IntBound 65535)
   \<and> min_dtype (DType UInt16 True) = Inr (IntBound 0)
   \<and> \<not> is_integer (DType String False) \<and> \<not> is_floating (DType String False)
   \<and> \<not> is_complex (DType String False)
   \<and> max_dtype (DType String False) = Inl (TypeError (Cannot_find_maximum (DType String False)))
   \<and> min_dtype (DType String False) = Inl (TypeError (Cannot_find_minimum (DType String False)))"
  using integer_bounds [of True "NpType Int64"] integer_bounds [of True "DType UInt16 True"]
    integer_bounds [of True "DType String False"]
  by (simp add: is_integer_kind is_floating_kind is_complex_kind)

subsection \<open>\<^verbatim>\<open>common_dtype\<close>\<close>

lemma py_eq_numpy_numpy: "py_eq (as_numpy_dtype a) (as_numpy_dtype b) \<longleftrightarrow> base_equal a b"
  by (simp add: py_eq_def as_numpy_dtype_eq base_equal_kind)

lemma common_dtype_loop_no_dtype:
  "\<forall>a \<in> set xs. truthy_dtype a = None \<Longrightarrow>
     common_dtype_loop cfg np_add xs dtype seen = Inr dtype"
  by (induction xs arbitrary: seen) simp_all

text \<open>
  C6. Whatever the hint (\<open>None\<close> included) and whatever the flags, \<^verbatim>\<open>common_dtype\<close> returns
  the hint as it is on the empty collection, and on every collection, nested or not,
  none of whose values carries a descriptor.
\<close>

theorem common_dtype_hint:
  "common_dtype cfg np_add (Seq []) dtype_hint = Inr dtype_hint
   \<and> ((\<forall>a \<in> set (flatten args_list). truthy_dtype a = None) \<longrightarrow>
        common_dtype cfg np_add args_list dtype_hint = Inr dtype_hint)"
  by (simp add: common_dtype_def common_dtype_loop_no_dtype)

theorem common_dtype_hint_witness:
  "map truthy_dtype (flatten (Seq [Leaf None,
       Seq [Leaf (Some \<lparr>obj_dtype = DtypeNone, obj_name = None, obj_str = ''op''\<rparr>),
            Leaf (Some \<lparr>obj_dtype = NoDtypeAttr, obj_name = None, obj_str = ''1.5''\<rparr>)]]))
     = [None, None, None]
   \<and> common_dtype default_config numpy_add_dtype (Seq [Leaf None,
       Seq [Leaf (Some \<lparr>obj_dtype = DtypeNone, obj_name = None, obj_str = ''op''\<rparr>),
            Leaf (Some \<lparr>obj_dtype = NoDtypeAttr, obj_name = None, obj_str = ''1.5''\<rparr>)]])
       (Some (DType Float32 True)) = Inr (Some (DType Float32 True))"
  using common_dtype_hint [of default_config numpy_add_dtype "Some (DType Float32 True)"
      "Seq [Leaf None,
        Seq [Leaf (Some \<lparr>obj_dtype = DtypeNone, obj_name = None, obj_str = ''op''\<rparr>),
             Leaf (Some \<lparr>obj_dtype = NoDtypeAttr, obj_name = None, obj_str = ''1.5''\<rparr>)]]"]
  by simp

lemma strict_loop_conflict:
  assumes "\<not> SKIP_DTYPE_CHECKS cfg"
    and "\<exists>a \<in> set xs. \<exists>d. truthy_dtype a = Some d \<and> \<not> py_eq cur (as_numpy_dtype d)"
  shows "\<exists>n d. n < length xs \<and> truthy_dtype (xs ! n) = Some d
           \<and> \<not> py_eq cur (as_numpy_dtype d)
           \<and> (\<forall>k < n. \<forall>d'. truthy_dtype (xs ! k) = Some d' \<longrightarrow> py_eq cur (as_numpy_dtype d'))
           \<and> common_dtype_loop cfg np_add xs (Some cur) seen
               = Inl (TypeError (Found_incompatible_dtypes_seen cur (as_numpy_dtype d)
                   (seen @ map (map_option as_numpy_dtype \<circ> truthy_dtype) (take (Suc n) xs))))"
  using assms(2)
proof (induction xs arbitrary: seen)
  case Nil
  then show ?case by simp
next
  case (Cons a rest)
  show ?case
  proof (cases "truthy_dtype a")
    case None
    with Cons.prems
    have "\<exists>b \<in> set rest. \<exists>d. truthy_dtype b = Some d \<and> \<not> py_eq cur (as_numpy_dtype d)"
      by auto
    from Cons.IH [OF this, of "seen @ [None]"] obtain n d where
      n: "n < length rest" "truthy_dtype (rest ! n) = Some d" "\<not> py_eq cur (as_numpy_dtype d)"
      "\<forall>k < n. \<forall>d'. truthy_dtype (rest ! k) = Some d' \<longrightarrow> py_eq cur (as_numpy_dtype d')"
      "common_dtype_loop cfg np_add rest (Some cur) (seen @ [None])
         = Inl (TypeError (Found_incompatible_dtypes_seen cur (as_numpy_dtype d)
             ((seen @ [None]) @ map (map_option as_numpy_dtype \<circ> truthy_dtype) (take (Suc n) rest))))"
      by blast
    show ?thesis
      by (rule exI [of _ "Suc n"], rule exI [of _ d])
        (use n None in \<open>auto simp: less_Suc_eq_0_disj\<close>)
  next
    case (Some d0)
    show ?thesis
    proof (cases "py_eq cur (as_numpy_dtype d0)")
      case False
      show ?thesis
        by (rule exI [of _ 0], rule exI [of _ d0])
          (use Some False assms(1) in \<open>simp add: Let_def\<close>)
    next
      case True
      with Cons.prems Some
      have "\<exists>b \<in> set rest. \<exists>d. truthy_dtype b = Some d \<and> \<not> py_eq cur (as_numpy_dtype d)"
        by auto
      from Cons.IH [OF this, of "seen @ [Some (as_numpy_dtype d0)]"] obtain n d where
        n: "n < length rest" "truthy_dtype (rest ! n) = Some d" "\<not> py_eq cur (as_numpy_dtype d)"
        "\<forall>k < n. \<forall>d'. truthy_dtype (rest ! k) = Some d' \<longrightarrow> py_eq cur (as_numpy_dtype d')"
        "common_dtype_loop cfg np_add rest (Some cur) (seen @ [Some (as_numpy_dtype d0)])
           = Inl (TypeError (Found_incompatible_dtypes_seen cur (as_numpy_dtype d)
               ((seen @ [Some (as_numpy_dtype d0)])
                  @ map (map_option as_numpy_dtype \<circ> truthy_dtype) (take (Suc n) rest))))"
        by blast
      show ?thesis
        by (rule exI [of _ "Suc n"], rule exI [of _ d])
          (use n Some True in \<open>auto simp: Let_def less_Suc_eq_0_disj\<close>)
    qed
  qed
qed

lemma strict_loop_conflict_start:
  assumes "\<not> SKIP_DTYPE_CHECKS cfg"
    and "\<exists>a \<in> set xs. \<exists>b \<in> set xs. \<exists>da db.
           truthy_dtype a = Some da \<and> truthy_dtype b = Some db \<and> \<not> base_equal da db"
  shows "\<exists>m n d1 d2. m < n \<and> n < length xs
           \<and> truthy_dtype (xs ! m) = Some d1 \<and> truthy_dtype (xs ! n) = Some d2
           \<and> \<not> base_equal d1 d2
           \<and> (\<forall>k < m. truthy_dtype (xs ! k) = None)
           \<and> (\<forall>k < n. \<forall>d'. truthy_dtype (xs ! k) = Some d' \<longrightarrow> base_equal d1 d')
           \<and> common_dtype_loop cfg np_add xs None seen
               = Inl (TypeError (Found_incompatible_dtypes_seen
                   (as_numpy_dtype d1) (as_numpy_dtype d2)
                   (seen @ map (map_option as_numpy_dtype \<circ> truthy_dtype) (take (Suc n) xs))))"
  using assms(2)
proof (induction xs arbitrary: seen)
  case Nil
  then show ?case by simp
next
  case (Cons a rest)
  show ?case
  proof (cases "truthy_dtype a")
    case None
    with Cons.prems
    have "\<exists>a \<in> set rest. \<exists>b \<in> set rest. \<exists>da db.
           truthy_dtype a = Some da \<and> truthy_dtype b = Some db \<and> \<not> base_equal da db"
      by auto
    from Cons.IH [OF this, of "seen @ [None]"] obtain m n d1 d2 where
      n: "m < n" "n < length rest" "truthy_dtype (rest ! m) = Some d1"
      "truthy_dtype (rest ! n) = Some d2" "\<not> base_equal d1 d2"
      "\<forall>k < m. truthy_dtype (rest ! k) = None"
      "\<forall>k < n. \<forall>d'. truthy_dtype (rest ! k) = Some d' \<longrightarrow> base_equal d1 d'"
      "common_dtype_loop cfg np_add rest None (seen @ [None])
         = Inl (TypeError (Found_incompatible_dtypes_seen (as_numpy_dtype d1) (as_numpy_dtype d2)
             ((seen @ [None]) @ map (map_option as_numpy_dtype \<circ> truthy_dtype) (take (Suc n) rest))))"
      by blast
    show ?thesis
      by (rule exI [of _ "Suc m"], rule exI [of _ "Suc n"], rule exI [of _ d1], rule exI [of _ d2])
        (use n None in \<open>auto simp: less_Suc_eq_0_disj\<close>)
  next
    case (Some d0)
    from Cons.prems obtain x y dx dy where
      xy: "x \<in> set (a # rest)" "y \<in> set (a # rest)" "truthy_dtype x = Some dx"
      "truthy_dtype y = Some dy" "\<not> base_equal dx dy"
      by blast
    have "\<exists>b \<in> set rest. \<exists>d. truthy_dtype b = Some d \<and> \<not> base_equal d0 d"
    proof (cases "base_equal d0 dx")
      case True
      then have ne: "\<not> base_equal d0 dy" using xy(5) by (simp add: base_equal_kind)
      then have "y \<noteq> a" using Some xy(4) by (auto simp: base_equal_kind)
      then show ?thesis using xy(2,4) ne by auto
    next
      case False
      then have "x \<noteq> a" using Some xy(3) by (auto simp: base_equal_kind)
      then show ?thesis using xy(1,3) False by auto
    qed
    then have "\<exists>b \<in> set rest. \<exists>d. truthy_dtype b = Some d
        \<and> \<not> py_eq (as_numpy_dtype d0) (as_numpy_dtype d)"
      by (simp add: py_eq_numpy_numpy)
    from strict_loop_conflict [OF assms(1) this, of np_add "seen @ [Some (as_numpy_dtype d0)]"]
    obtain n d where
      n: "n < length rest" "truthy_dtype (rest ! n) = Some d"
      "\<not> py_eq (as_numpy_dtype d0) (as_numpy_dtype d)"
      "\<forall>k < n. \<forall>d'. truthy_dtype (rest ! k) = Some d'
          \<longrightarrow> py_eq (as_numpy_dtype d0) (as_numpy_dtype d')"
      "common_dtype_loop cfg np_add rest (Some (as_numpy_dtype d0)) (seen @ [Some (as_numpy_dtype d0)])
         = Inl (TypeError (Found_incompatible_dtypes_seen (as_numpy_dtype d0) (as_numpy_dtype d)
             ((seen @ [Some (as_numpy_dtype d0)])
                 @ map (map_option as_numpy_dtype \<circ> truthy_dtype) (take (Suc n) rest))))"
      by blast
    show ?thesis
      by (rule exI [of _ 0], rule exI [of _ "Suc n"], rule exI [of _ d0], rule exI [of _ d])
        (use n Some in \<open>auto simp: py_eq_numpy_numpy Let_def comp_def less_Suc_eq_0_disj
            base_equal_kind\<close>)
  qed
qed

text \<open>
  C1. With strict checking (\<^verbatim>\<open>SKIP_DTYPE_CHECKS\<close> false), if the flattened collection holds
  two values whose descriptors are not base-equal, \<^verbatim>\<open>common_dtype\<close> raises the
  \<^verbatim>\<open>TypeError\<close> \<^verbatim>\<open>'Found incompatible dtypes, ...'\<close>. Its message names two descriptors of
  the collection that are not base-equal: the first descriptor met (at \<open>m\<close>) and the first
  one after it that is not base-equal to it (at \<open>n\<close>, where the loop stops), both as their
  NumPy types. It lists what was seen of every value up to that one, in the order met
  (the NumPy type, or \<^verbatim>\<open>None\<close> for a value without a descriptor).
\<close>

theorem common_dtype_strict_incompatible:
  assumes "\<not> SKIP_DTYPE_CHECKS cfg"
    and "a \<in> set (flatten args_list)" and "b \<in> set (flatten args_list)"
    and "truthy_dtype a = Some da" and "truthy_dtype b = Some db"
    and "\<not> base_equal da db"
  shows "\<exists>m n d1 d2. m < n \<and> n < length (flatten args_list)
           \<and> truthy_dtype (flatten args_list ! m) = Some d1
           \<and> truthy_dtype (flatten args_list ! n) = Some d2
           \<and> \<not> base_equal d1 d2
           \<and> (\<forall>k < m. truthy_dtype (flatten args_list ! k) = None)
           \<and> (\<forall>k < n. \<forall>d'. truthy_dtype (flatten args_list ! k) = Some d'
                 \<longrightarrow> base_equal d1 d')
           \<and> common_dtype cfg np_add args_list dtype_hint
               = Inl (TypeError (Found_incompatible_dtypes_seen
                   (as_numpy_dtype d1) (as_numpy_dtype d2)
                   (map (map_option as_numpy_dtype \<circ> truthy_dtype)
                      (take (Suc n) (flatten args_list)))))"
proof -
  have "\<exists>a \<in> set (flatten args_list). \<exists>b \<in> set (flatten args_list). \<exists>da db.
           truthy_dtype a = Some da \<and> truthy_dtype b = Some db \<and> \<not> base_equal da db"
    using assms(2-6) by blast
  from strict_loop_conflict_start [OF assms(1) this, of np_add "[]"]
  obtain m n d1 d2 where
    r: "m < n" "n < length (flatten args_list)"
      "truthy_dtype (flatten args_list ! m) = Some d1"
      "truthy_dtype (flatten args_list ! n) = Some d2" "\<not> base_equal d1 d2"
      "\<forall>k < m. truthy_dtype (flatten args_list ! k) = None"
      "\<forall>k < n. \<forall>d'. truthy_dtype (flatten args_list ! k) = Some d' \<longrightarrow> base_equal d1 d'"
      "common_dtype_loop cfg np_add (flatten args_list) None []
         = Inl (TypeError (Found_incompatible_dtypes_seen
                   (as_numpy_dtype d1) (as_numpy_dtype d2)
                   ([] @ map (map_option as_numpy_dtype \<circ> truthy_dtype)
                      (take (Suc n) (flatten args_list)))))"
    by blast
  show ?thesis
    by (rule exI [of _ m], rule exI [of _ n], rule exI [of _ d1], rule exI [of _ d2])
      (use r in \<open>simp add: common_dtype_def\<close>)
qed

theorem common_dtype_strict_incompatible_witness:
  "\<not> SKIP_DTYPE_CHECKS default_config
   \<and> truthy_dtype (tensor (DType Float32 False) ''x'') = Some (DType Float32 False)
   \<and> truthy_dtype (tensor (DType Float64 True) ''y'') = Some (DType Float64 True)
   \<and> \<not> base_equal (DType Float32 False) (DType Float64 True)
   \<and> common_dtype default_config numpy_add_dtype
       (Seq [Leaf (tensor (DType Float32 False) ''x''), Leaf None,
             Seq [Leaf (tensor (DType Float64 True) ''y'')]]) None
       = Inl (TypeError (Found_incompatible_dtypes_seen (NpType Float32) (NpType Float64)
           [Some (NpType Float32), None, Some (NpType Float64)]))"
proof -
  let ?x = "tensor (DType Float32 False) ''x''"
  let ?y = "tensor (DType Float64 True) ''y''"
  let ?args = "Seq [Leaf ?x, Leaf None, Seq [Leaf ?y]]"
  have h1: "\<not> SKIP_DTYPE_CHECKS default_config"
    by (simp add: default_config_def)
  have h2: "?x \<in> set (flatten ?args)" and h3: "?y \<in> set (flatten ?args)"
    by simp_all
  have h4: "truthy_dtype ?x = Some (DType Float32 False)"
    and h5: "truthy_dtype ?y = Some (DType Float64 True)"
    by (simp_all add: tensor_def)
  have h6: "\<not> base_equal (DType Float32 False) (DType Float64 True)"
    by (simp add: base_equal_kind)
  from common_dtype_strict_incompatible [OF h1 h2 h3 h4 h5 h6, of numpy_add_dtype None]
  obtain m n d1 d2 where
    r: "m < n" "n < length (flatten ?args)" "truthy_dtype (flatten ?args ! m) = Some d1"
      "truthy_dtype (flatten ?args ! n) = Some d2" "\<not> base_equal d1 d2"
      "common_dtype default_config numpy_add_dtype ?args None
         = Inl (TypeError (Found_incompatible_dtypes_seen
                   (as_numpy_dtype d1) (as_numpy_dtype d2)
                   (map (map_option as_numpy_dtype \<circ> truthy_dtype)
                      (take (Suc n) (flatten ?args)))))"
    by blast
  from r(1,2) have mn: "m = 0 \<and> n = 2 \<or> m = 0 \<and> n = 1 \<or> m = 1 \<and> n = 2"
    by auto
  have n: "m = 0 \<and> n = 2"
    using mn r(3,4) by (auto simp: tensor_def)
  with r(3,4) have "d1 = DType Float32 False" "d2 = DType Float64 True"
    by (simp_all add: tensor_def)
  with r(6) n have "common_dtype default_config numpy_add_dtype ?args None
       = Inl (TypeError (Found_incompatible_dtypes_seen (NpType Float32) (NpType Float64)
           [Some (NpType Float32), None, Some (NpType Float64)]))"
    by (simp add: as_numpy_dtype_eq tensor_def numeral_3_eq_3)
  then show ?thesis using h1 h4 h5 h6 by simp
qed

lemma skip_loop_error:
  assumes "SKIP_DTYPE_CHECKS cfg"
  shows "common_dtype_loop cfg np_add xs dtype seen = Inl e \<Longrightarrow> \<exists>x y. np_add x y = Inl e"
proof (induction xs arbitrary: dtype seen)
  case Nil
  then show ?case by simp
next
  case (Cons a rest)
  show ?case
  proof (cases "truthy_dtype a")
    case None
    then show ?thesis using Cons by simp
  next
    case (Some d)
    show ?thesis
    proof (cases dtype)
      case None
      then show ?thesis using Some Cons by (simp add: Let_def)
    next
      case cur: (Some cur)
      show ?thesis
      proof (cases "np_add cur (as_numpy_dtype d)")
        case (Inl e')
        show ?thesis
        proof (cases "py_eq cur (as_numpy_dtype d)")
          case True
          then show ?thesis using Some cur Cons by (simp add: Let_def)
        next
          case False
          then have "e' = e" using Some cur Inl Cons.prems assms by (simp add: Let_def)
          then show ?thesis using Inl by blast
        qed
      next
        case (Inr p)
        then show ?thesis using Some cur Cons assms
          by (simp add: Let_def split: if_splits)
      qed
    qed
  qed
qed

lemma numpy_add_float32_float64:
  "kind_of x = Float32 \<Longrightarrow> kind_of y = Float64 \<Longrightarrow> numpy_add_dtype x y = Inr (NpType Float64)"
  by (simp add: numpy_add_dtype_def np_add_loops_def np_can_cast_safe_def)

lemma numpy_add_dtype_errors:
  "numpy_add_dtype x y = Inl e \<Longrightarrow>
     e = TypeError (No_add_loop x y) \<or> e = TypeError (Unsupported_operand x y)"
  by (auto simp: numpy_add_dtype_def split: option.splits if_splits)

lemma numpy_add_dtype_examples:
  "numpy_add_dtype (NpType BFloat16) (NpType Float32) = Inr (NpType Float32)"
  "numpy_add_dtype (NpType BFloat16) (NpType Int8) = Inr (NpType BFloat16)"
  "numpy_add_dtype (NpType Int8) (NpType UInt8) = Inr (NpType Int16)"
  "numpy_add_dtype (NpType Int64) (NpType UInt64) = Inr (NpType Float64)"
  "numpy_add_dtype (NpType Float32) (NpType Int32) = Inr (NpType Float64)"
  "numpy_add_dtype (NpType Float32) (NpType String) = Inr (NpType String)"
  "numpy_add_dtype (NpType QInt8) (NpType Float32)
     = Inl (TypeError (No_add_loop (NpType QInt8) (NpType Float32)))"
  "numpy_add_dtype (NpType QInt8) (NpType String)
     = Inl (TypeError (Unsupported_operand (NpType QInt8) (NpType String)))"
  by (simp_all add: numpy_add_dtype_def np_add_loops_def np_can_cast_safe_def)

text \<open>
  C2. With \<^verbatim>\<open>SKIP_DTYPE_CHECKS\<close> set, a value whose type differs from the running
  one never raises the \<^verbatim>\<open>TypeError\<close> \<^verbatim>\<open>'Found incompatible dtypes, ...'\<close>: the loop adds
  two arrays of the two types and, when NumPy can add them, goes on with the type of the
  sum in place of the running one. When NumPy cannot add them, the error of the addition
  is raised, and these are the only errors \<^verbatim>\<open>common_dtype\<close> raises then. On two values
  whose types differ it returns the base form of the type of the sum, and on \<^verbatim>\<open>float32\<close>
  and \<^verbatim>\<open>float64\<close>, with NumPy's own addition, \<^verbatim>\<open>float64\<close>.
\<close>

theorem common_dtype_skip_promotes:
  assumes "SKIP_DTYPE_CHECKS cfg"
  shows "(truthy_dtype a = Some d \<and> \<not> py_eq cur (as_numpy_dtype d) \<longrightarrow>
            common_dtype_loop cfg np_add (a # rest) (Some cur) seen
              = (case np_add cur (as_numpy_dtype d) of
                   Inl e \<Rightarrow> Inl e
                 | Inr p \<Rightarrow> common_dtype_loop cfg np_add rest (Some p)
                             (seen @ [Some (as_numpy_dtype d)])))
       \<and> (\<forall>e. common_dtype cfg np_add args_list dtype_hint = Inl e \<longrightarrow>
            (\<exists>x y. np_add x y = Inl e))
       \<and> (\<forall>x y s. common_dtype cfg numpy_add_dtype args_list dtype_hint
              \<noteq> Inl (TypeError (Found_incompatible_dtypes_seen x y s)))
       \<and> (truthy_dtype v1 = Some d1 \<and> truthy_dtype v2 = Some d2 \<and> \<not> base_equal d1 d2
            \<and> np_add (as_numpy_dtype d1) (as_numpy_dtype d2) = Inr p \<longrightarrow>
            common_dtype cfg np_add (Seq [Leaf v1, Leaf v2]) dtype_hint
              = Inr (Some (base_dtype p)))
       \<and> (truthy_dtype v1 = Some d1 \<and> truthy_dtype v2 = Some d2
            \<and> kind_of d1 = Float32 \<and> kind_of d2 = Float64 \<longrightarrow>
            common_dtype cfg numpy_add_dtype (Seq [Leaf v1, Leaf v2]) dtype_hint
              = Inr (Some (DType Float64 False)))"
proof (intro conjI impI allI)
  assume "truthy_dtype a = Some d \<and> \<not> py_eq cur (as_numpy_dtype d)"
  then show "common_dtype_loop cfg np_add (a # rest) (Some cur) seen
              = (case np_add cur (as_numpy_dtype d) of
                   Inl e \<Rightarrow> Inl e
                 | Inr p \<Rightarrow> common_dtype_loop cfg np_add rest (Some p)
                             (seen @ [Some (as_numpy_dtype d)]))"
    using assms by (simp add: Let_def)
next
  fix e
  assume "common_dtype cfg np_add args_list dtype_hint = Inl e"
  then have "common_dtype_loop cfg np_add (flatten args_list) None [] = Inl e"
    by (simp add: common_dtype_def split: sum.splits)
  from skip_loop_error [OF assms this] show "\<exists>x y. np_add x y = Inl e" .
next
  fix x y s
  show "common_dtype cfg numpy_add_dtype args_list dtype_hint
          \<noteq> Inl (TypeError (Found_incompatible_dtypes_seen x y s))"
  proof
    assume "common_dtype cfg numpy_add_dtype args_list dtype_hint
          = Inl (TypeError (Found_incompatible_dtypes_seen x y s))"
    then have "common_dtype_loop cfg numpy_add_dtype (flatten args_list) None []
          = Inl (TypeError (Found_incompatible_dtypes_seen x y s))"
      by (simp add: common_dtype_def split: sum.splits)
    from skip_loop_error [OF assms this] obtain x' y' where
      "numpy_add_dtype x' y' = Inl (TypeError (Found_incompatible_dtypes_seen x y s))"
      by blast
    from numpy_add_dtype_errors [OF this] show False by simp
  qed
next
  assume "truthy_dtype v1 = Some d1 \<and> truthy_dtype v2 = Some d2 \<and> \<not> base_equal d1 d2
            \<and> np_add (as_numpy_dtype d1) (as_numpy_dtype d2) = Inr p"
  then show "common_dtype cfg np_add (Seq [Leaf v1, Leaf v2]) dtype_hint
              = Inr (Some (base_dtype p))"
    using assms by (simp add: common_dtype_def Let_def py_eq_numpy_numpy)
next
  assume h: "truthy_dtype v1 = Some d1 \<and> truthy_dtype v2 = Some d2
            \<and> kind_of d1 = Float32 \<and> kind_of d2 = Float64"
  then have "numpy_add_dtype (as_numpy_dtype d1) (as_numpy_dtype d2) = Inr (NpType Float64)"
    by (simp add: numpy_add_float32_float64 as_numpy_dtype_eq)
  then show "common_dtype cfg numpy_add_dtype (Seq [Leaf v1, Leaf v2]) dtype_hint
              = Inr (Some (DType Float64 False))"
    using assms h
    by (simp add: common_dtype_def Let_def py_eq_numpy_numpy base_equal_kind base_dtype_eq)
qed

theorem common_dtype_skip_promotes_witness:
  "SKIP_DTYPE_CHECKS (default_config\<lparr>SKIP_DTYPE_CHECKS := True\<rparr>)
   \<and> truthy_dtype (tensor (DType Float64 False) ''y'') = Some (DType Float64 False)
   \<and> \<not> py_eq (NpType Float32) (as_numpy_dtype (DType Float64 False))
   \<and> common_dtype_loop (default_config\<lparr>SKIP_DTYPE_CHECKS := True\<rparr>) numpy_add_dtype
       [tensor (DType Float64 False) ''y''] (Some (NpType Float32)) [Some (NpType Float32)]
       = Inr (Some (NpType Float64))
   \<and> common_dtype (default_config\<lparr>SKIP_DTYPE_CHECKS := True\<rparr>) numpy_add_dtype
       (Seq [Leaf (tensor (DType QInt8 False) ''q''), Leaf (tensor (DType Float32 False) ''x'')])
       None = Inl (TypeError (No_add_loop (NpType QInt8) (NpType Float32)))
   \<and> numpy_add_dtype (NpType QInt8) (NpType Float32)
       = Inl (TypeError (No_add_loop (NpType QInt8) (NpType Float32)))
   \<and> truthy_dtype (tensor (DType Float32 True) ''x'') = Some (DType Float32 True)
   \<and> \<not> base_equal (DType Float32 True) (DType Float64 False)
   \<and> numpy_add_dtype (as_numpy_dtype (DType Float32 True)) (as_numpy_dtype (DType Float64 False))
       = Inr (NpType Float64)
   \<and> common_dtype (default_config\<lparr>SKIP_DTYPE_CHECKS := True\<rparr>) numpy_add_dtype
       (Seq [Leaf (tensor (DType Float32 True) ''x''), Leaf (tensor (DType Float64 False) ''y'')])
       None = Inr (Some (DType Float64 False))"
proof -
  let ?cfg = "default_config\<lparr>SKIP_DTYPE_CHECKS := True\<rparr>"
  let ?x = "tensor (DType Float32 True) ''x''"
  let ?y = "tensor (DType Float64 False) ''y''"
  let ?q = "Seq [Leaf (tensor (DType QInt8 False) ''q''), Leaf (tensor (DType Float32 False) ''x'')]"
  have skip: "SKIP_DTYPE_CHECKS ?cfg"
    by simp
  have hx: "truthy_dtype ?x = Some (DType Float32 True)"
    and hy: "truthy_dtype ?y = Some (DType Float64 False)"
    by (simp_all add: tensor_def)
  have ne: "\<not> py_eq (NpType Float32) (as_numpy_dtype (DType Float64 False))"
    by (simp add: py_eq_def as_numpy_dtype_eq)
  have nb: "\<not> base_equal (DType Float32 True) (DType Float64 False)"
    by (simp add: base_equal_kind)
  have add: "numpy_add_dtype (as_numpy_dtype (DType Float32 True))
      (as_numpy_dtype (DType Float64 False)) = Inr (NpType Float64)"
    "numpy_add_dtype (NpType Float32) (as_numpy_dtype (DType Float64 False))
      = Inr (NpType Float64)"
    by (simp_all add: numpy_add_float32_float64 as_numpy_dtype_eq)
  have q: "numpy_add_dtype (NpType QInt8) (NpType Float32)
      = Inl (TypeError (No_add_loop (NpType QInt8) (NpType Float32)))"
    by (simp add: numpy_add_dtype_def np_add_loops_def np_can_cast_safe_def)
  have qe: "common_dtype ?cfg numpy_add_dtype ?q None
      = Inl (TypeError (No_add_loop (NpType QInt8) (NpType Float32)))"
    by (simp add: common_dtype_def tensor_def Let_def py_eq_def as_numpy_dtype_eq q)
  note inst = common_dtype_skip_promotes [OF skip, where a = ?y and d = "DType Float64 False"
      and cur = "NpType Float32" and np_add = numpy_add_dtype and rest = "[]"
      and seen = "[Some (NpType Float32)]" and args_list = ?q and dtype_hint = None
      and ?v1.0 = ?x and ?d1.0 = "DType Float32 True" and ?v2.0 = ?y
      and ?d2.0 = "DType Float64 False" and p = "NpType Float64"]
  from inst have step: "common_dtype_loop ?cfg numpy_add_dtype [?y] (Some (NpType Float32))
      [Some (NpType Float32)] = Inr (Some (NpType Float64))"
    using hy ne add(2) by simp
  from inst have errs: "\<exists>x y. numpy_add_dtype x y
      = Inl (TypeError (No_add_loop (NpType QInt8) (NpType Float32)))"
    using qe by blast
  from inst have two: "common_dtype ?cfg numpy_add_dtype (Seq [Leaf ?x, Leaf ?y]) None
      = Inr (Some (DType Float64 False))"
    using hx hy by simp
  show ?thesis
    using skip hx hy ne nb add(1) q qe step two by blast
qed

text \<open>
  Under \<^verbatim>\<open>SKIP_DTYPE_CHECKS\<close> a conflict can still raise, so C2 does not hold in the
  form "a conflict does not raise": on a \<^verbatim>\<open>qint8\<close> tensor and a \<^verbatim>\<open>float32\<close> tensor,
  whose types are not base-equal, NumPy cannot add the two arrays, and \<^verbatim>\<open>common_dtype\<close>
  raises the \<^verbatim>\<open>TypeError\<close> of \<^verbatim>\<open>np.ones([2], qint8) + np.ones([2], float32)\<close> and
  returns nothing.
\<close>

theorem common_dtype_skip_raises:
  "SKIP_DTYPE_CHECKS (default_config\<lparr>SKIP_DTYPE_CHECKS := True\<rparr>)
   \<and> truthy_dtype (tensor (DType QInt8 False) ''q'') = Some (DType QInt8 False)
   \<and> truthy_dtype (tensor (DType Float32 False) ''x'') = Some (DType Float32 False)
   \<and> \<not> base_equal (DType QInt8 False) (DType Float32 False)
   \<and> common_dtype (default_config\<lparr>SKIP_DTYPE_CHECKS := True\<rparr>) numpy_add_dtype
       (Seq [Leaf (tensor (DType QInt8 False) ''q''), Leaf (tensor (DType Float32 False) ''x'')])
       None = Inl (TypeError (No_add_loop (NpType QInt8) (NpType Float32)))
   \<and> \<not> (\<exists>r. common_dtype (default_config\<lparr>SKIP_DTYPE_CHECKS := True\<rparr>) numpy_add_dtype
       (Seq [Leaf (tensor (DType QInt8 False) ''q''), Leaf (tensor (DType Float32 False) ''x'')])
       None = Inr r)"
proof -
  have "common_dtype (default_config\<lparr>SKIP_DTYPE_CHECKS := True\<rparr>) numpy_add_dtype
       (Seq [Leaf (tensor (DType QInt8 False) ''q''), Leaf (tensor (DType Float32 False) ''x'')])
       None = Inl (TypeError (No_add_loop (NpType QInt8) (NpType Float32)))"
    by (simp add: common_dtype_def tensor_def Let_def py_eq_def as_numpy_dtype_eq
        numpy_add_dtype_def np_add_loops_def np_can_cast_safe_def)
  then show ?thesis
    by (simp add: tensor_def base_equal_kind)
qed

subsection \<open>\<^verbatim>\<open>convert_to_dtype\<close>\<close>

lemma check_dtype_strict:
  "\<not> SKIP_DTYPE_CHECKS cfg \<Longrightarrow> check_dtype cfg (Some d) dt = Inr r \<Longrightarrow>
     r = Some dt \<and> base_equal d dt"
  by (simp split: if_splits)

text \<open>
  C3. With strict checking and an explicit \<^verbatim>\<open>dtype\<close>, \<^verbatim>\<open>convert_to_dtype\<close> raises the
  \<^verbatim>\<open>TypeError\<close> \<^verbatim>\<open>'Found incompatible dtypes, {} and {}.'\<close> whenever the resolved
  descriptor is not base-equal to \<^verbatim>\<open>dtype\<close>: for a tensor and for a \<^verbatim>\<open>tf.DType\<close> the
  resolved descriptor is the base form of theirs, for any other object the \<^verbatim>\<open>dtype\<close> of
  the converted tensor; and whatever the input (not \<^verbatim>\<open>None\<close>), a descriptor it returns is
  base-equal to \<^verbatim>\<open>dtype\<close>. On the input \<^verbatim>\<open>None\<close> it returns \<^verbatim>\<open>dtype\<close> when given, and
  \<^verbatim>\<open>dtype_hint\<close> otherwise.
\<close>

theorem convert_to_dtype_explicit:
  "(\<not> SKIP_DTYPE_CHECKS cfg \<and> \<not> base_equal d (base_dtype t) \<longrightarrow>
      convert_to_dtype cfg convert_to_tensor (IsTensor t) (Some d) dtype_hint
        = Inl (TypeError (Found_incompatible_dtypes d (base_dtype t)))
      \<and> convert_to_dtype cfg convert_to_tensor (IsDType t) (Some d) dtype_hint
        = Inl (TypeError (Found_incompatible_dtypes d (base_dtype t))))
   \<and> (\<not> SKIP_DTYPE_CHECKS cfg \<and> convert_to_tensor v (Some d) dtype_hint = Inr dt
        \<and> \<not> base_equal d dt \<longrightarrow>
      convert_to_dtype cfg convert_to_tensor (IsOther v) (Some d) dtype_hint
        = Inl (TypeError (Found_incompatible_dtypes d dt)))
   \<and> (\<not> SKIP_DTYPE_CHECKS cfg \<and> x \<noteq> IsNone
        \<and> convert_to_dtype cfg convert_to_tensor x (Some d) dtype_hint = Inr r \<longrightarrow>
      (\<exists>dt'. r = Some dt' \<and> base_equal d dt'))
   \<and> convert_to_dtype cfg convert_to_tensor IsNone (Some d) dtype_hint = Inr (Some d)
   \<and> convert_to_dtype cfg convert_to_tensor IsNone None dtype_hint = Inr dtype_hint"
proof (intro conjI impI)
  assume h: "\<not> SKIP_DTYPE_CHECKS cfg \<and> x \<noteq> IsNone
        \<and> convert_to_dtype cfg convert_to_tensor x (Some d) dtype_hint = Inr r"
  show "\<exists>dt'. r = Some dt' \<and> base_equal d dt'"
  proof (cases x)
    case (IsOther v')
    show ?thesis
    proof (cases "convert_to_tensor v' (Some d) dtype_hint")
      case (Inl e)
      with h IsOther show ?thesis by simp
    next
      case (Inr dt')
      with h IsOther have "check_dtype cfg (Some d) dt' = Inr r"
        by (simp del: check_dtype.simps)
      with h check_dtype_strict show ?thesis by blast
    qed
  qed (use h in \<open>auto split: if_splits\<close>)
qed simp_all

theorem convert_to_dtype_explicit_witness:
  "\<not> SKIP_DTYPE_CHECKS default_config
   \<and> \<not> base_equal (DType Float32 False) (base_dtype (DType Int32 True))
   \<and> convert_to_dtype default_config (\<lambda>(v::bool) d h. Inr (DType Int32 False))
       (IsTensor (DType Int32 True)) (Some (DType Float32 False)) None
       = Inl (TypeError (Found_incompatible_dtypes (DType Float32 False) (DType Int32 False)))
   \<and> convert_to_dtype default_config (\<lambda>(v::bool) d h. Inr (DType Int32 False))
       (IsDType (DType Int32 True)) (Some (DType Float32 False)) None
       = Inl (TypeError (Found_incompatible_dtypes (DType Float32 False) (DType Int32 False)))
   \<and> convert_to_dtype default_config (\<lambda>(v::bool) d h. Inr (DType Int32 False))
       (IsOther True) (Some (DType Float32 False)) None
       = Inl (TypeError (Found_incompatible_dtypes (DType Float32 False) (DType Int32 False)))
   \<and> convert_to_dtype default_config (\<lambda>(v::bool) d h. Inr (DType Int32 False))
       (IsTensor (DType Float32 True)) (Some (NpType Float32)) None
       = Inr (Some (DType Float32 False))
   \<and> base_equal (NpType Float32) (DType Float32 False)
   \<and> convert_to_dtype default_config (\<lambda>(v::bool) d h. Inr (DType Int32 False))
       IsNone (Some (DType Float32 False)) None = Inr (Some (DType Float32 False))
   \<and> convert_to_dtype default_config (\<lambda>(v::bool) d h. Inr (DType Int32 False))
       IsNone None (Some (NpType Int8)) = Inr (Some (NpType Int8))"
  using convert_to_dtype_explicit [where cfg = default_config
      and convert_to_tensor = "\<lambda>(v::bool) d h. Inr (DType Int32 False)"
      and d = "DType Float32 False" and t = "DType Int32 True" and dtype_hint = None
      and v = True and dt = "DType Int32 False" and x = "IsNone" and r = None]
    convert_to_dtype_explicit [where cfg = default_config
      and convert_to_tensor = "\<lambda>(v::bool) d h. Inr (DType Int32 False)"
      and d = "NpType Float32" and t = "DType Float32 True" and dtype_hint = "Some (NpType Int8)"
      and v = True and dt = "DType Int32 False" and x = "IsTensor (DType Float32 True)"
      and r = "Some (DType Float32 False)"]
  by (simp add: default_config_def base_equal_kind base_dtype_eq)

text \<open>
  C10. On a NumPy array with an explicit \<^verbatim>\<open>dtype\<close>, \<^verbatim>\<open>convert_to_dtype\<close> returns the base
  form of \<^verbatim>\<open>dtype\<close>, whatever the array's own type, the hint and the flags: the array's
  type is neither read nor compared, and no error is raised.
\<close>

theorem ndarray_defers_to_explicit:
  "convert_to_dtype cfg convert_to_tensor (IsNdArray t) (Some d) dtype_hint
     = Inr (Some (base_dtype d))"
  by (simp add: base_equal_kind base_dtype_eq)

theorem ndarray_defers_to_explicit_witness:
  "convert_to_dtype default_config (\<lambda>(v::bool) d h. Inr (DType Int32 False))
     (IsNdArray (NpType Int32)) (Some (DType Float32 True)) None
     = Inr (Some (DType Float32 False))"
  using ndarray_defers_to_explicit [of default_config
      "\<lambda>(v::bool) d h. Inr (DType Int32 False)" "NpType Int32" "DType Float32 True" None]
  by (simp add: base_dtype_eq)

subsection \<open>\<^verbatim>\<open>assert_same_float_dtype\<close>\<close>

lemma second_pass_raises:
  "first_pass items expected_type = Inr (True, x) \<Longrightarrow>
     \<exists>item ty ex. x = Some ex \<and> Some item \<in> set items \<and> item_type item = Inr ty
        \<and> \<not> py_eq ex ty
        \<and> (\<exists>suffix. second_pass items expected_type original_item_str
              = Inl (ValueError (Must_be_of_the_same_type (get_name item) ty ex suffix)))"
proof (induction items expected_type arbitrary: original_item_str rule: first_pass.induct)
  case (1 expected_type)
  then show ?case by simp
next
  case (2 items expected_type)
  then show ?case by simp
next
  case (3 item items expected_type)
  from "3.prems" obtain ty where ty: "item_type item = Inr ty"
    by (cases "item_type item") simp_all
  show ?case
  proof (cases expected_type)
    case None
    with "3.prems" ty have "first_pass items (Some ty) = Inr (True, x)" by simp
    from "3.IH"(1) [OF ty None this, of "Some (get_name item)"] show ?thesis
      using ty None by auto
  next
    case (Some ex)
    show ?thesis
    proof (cases "py_eq ex ty")
      case True
      with "3.prems" ty Some have "first_pass items expected_type = Inr (True, x)" by simp
      from "3.IH"(2) [OF ty Some _ this, of original_item_str] True show ?thesis
        using ty Some by auto
    next
      case False
      with "3.prems" ty Some have "x = Some ex" by simp
      then show ?thesis using ty Some False by auto
    qed
  qed
qed

text \<open>
  C5. In \<^verbatim>\<open>_assert_same_base_type\<close> the message is built by the second loop, which runs
  only when the first loop has found a mismatch; when the first loop finds none, its
  \<^verbatim>\<open>expected_type\<close> is returned. When the first loop finds a mismatch, the second loop
  raises the \<^verbatim>\<open>ValueError\<close> that names an item of the list, its type, and the expected
  type it differs from (the one the first loop stopped with): the second loop never
  reaches the \<^verbatim>\<open>return\<close> after it.
\<close>

theorem second_pass_always_raises:
  "(first_pass items expected_type = Inr (True, x) \<longrightarrow>
      (\<exists>item ty ex suffix. x = Some ex \<and> Some item \<in> set items \<and> item_type item = Inr ty
          \<and> \<not> py_eq ex ty
          \<and> assert_same_base_type items expected_type
              = Inl (ValueError (Must_be_of_the_same_type (get_name item) ty ex suffix)))
      \<and> (\<forall>r. second_pass items expected_type None \<noteq> Inr r))
   \<and> (first_pass items expected_type = Inr (False, x) \<longrightarrow>
        assert_same_base_type items expected_type = Inr x)"
proof (intro conjI impI)
  assume fp: "first_pass items expected_type = Inr (True, x)"
  from second_pass_raises [OF fp, of None] obtain item ty ex suffix where
    r: "x = Some ex" "Some item \<in> set items" "item_type item = Inr ty" "\<not> py_eq ex ty"
    "second_pass items expected_type None
       = Inl (ValueError (Must_be_of_the_same_type (get_name item) ty ex suffix))"
    by blast
  show "\<exists>item ty ex suffix. x = Some ex \<and> Some item \<in> set items \<and> item_type item = Inr ty
          \<and> \<not> py_eq ex ty
          \<and> assert_same_base_type items expected_type
              = Inl (ValueError (Must_be_of_the_same_type (get_name item) ty ex suffix))"
    by (rule exI [of _ item], rule exI [of _ ty], rule exI [of _ ex], rule exI [of _ suffix])
      (use r fp in \<open>simp add: assert_same_base_type_def\<close>)
  show "\<forall>r. second_pass items expected_type None \<noteq> Inr r"
    using r(5) by simp
next
  assume "first_pass items expected_type = Inr (False, x)"
  then show "assert_same_base_type items expected_type = Inr x"
    by (simp add: assert_same_base_type_def)
qed

theorem second_pass_always_raises_witness:
  "first_pass [None, tensor (DType Float32 False) ''x'', tensor (DType Float64 False) ''y''] None
     = Inr (True, Some (DType Float32 False))
   \<and> assert_same_base_type
       [None, tensor (DType Float32 False) ''x'', tensor (DType Float64 False) ''y''] None
     = Inl (ValueError (Must_be_of_the_same_type ''y'' (DType Float64 False)
         (DType Float32 False) '' as x''))
   \<and> first_pass [tensor (DType Float32 True) ''x'', None, tensor (DType Float32 False) ''y'']
       (Some (DType Float32 False)) = Inr (False, Some (DType Float32 False))
   \<and> assert_same_base_type [tensor (DType Float32 True) ''x'', None, tensor (DType Float32 False) ''y'']
       (Some (DType Float32 False)) = Inr (Some (DType Float32 False))"
  using second_pass_always_raises [of
      "[None, tensor (DType Float32 False) ''x'', tensor (DType Float64 False) ''y'']" None
      "Some (DType Float32 False)"]
    second_pass_always_raises [of
      "[tensor (DType Float32 True) ''x'', None, tensor (DType Float32 False) ''y'']"
      "Some (DType Float32 False)" "Some (DType Float32 False)"]
  by (simp add: assert_same_base_type_def tensor_def item_type_def base_dtype_eq py_eq_def
      get_name_def)

text \<open>
  C4. \<^verbatim>\<open>assert_same_float_dtype\<close> returns \<^verbatim>\<open>tf.float32\<close> when it is given no tensors and
  no \<^verbatim>\<open>dtype\<close>. Whenever the type it has resolved (the explicit \<^verbatim>\<open>dtype\<close>, or the one
  validated on the tensors) is not a floating-point type, it raises the \<^verbatim>\<open>ValueError\<close>
  \<^verbatim>\<open>'Expected floating point type, got {}.'\<close>; so it does on the empty list with the
  explicit \<^verbatim>\<open>tf.int32\<close>.
\<close>

theorem assert_same_float_dtype_default:
  "assert_same_float_dtype None None = Inr (DType Float32 False)
   \<and> assert_same_float_dtype (Some []) None = Inr (DType Float32 False)
   \<and> (validated_type tensors dtype = Inr (Some d) \<and> \<not> is_floating d \<longrightarrow>
        assert_same_float_dtype tensors dtype
          = Inl (ValueError (Expected_floating_point_type d)))
   \<and> assert_same_float_dtype (Some []) (Some (DType Int32 False))
        = Inl (ValueError (Expected_floating_point_type (DType Int32 False)))"
  by (simp add: assert_same_float_dtype_def is_floating_kind)

theorem assert_same_float_dtype_default_witness:
  "validated_type (Some [None, tensor (DType Complex64 True) ''z'']) None
     = Inr (Some (DType Complex64 False))
   \<and> \<not> is_floating (DType Complex64 False)
   \<and> assert_same_float_dtype (Some [None, tensor (DType Complex64 True) ''z'']) None
       = Inl (ValueError (Expected_floating_point_type (DType Complex64 False)))"
  using assert_same_float_dtype_default [of "Some [None, tensor (DType Complex64 True) ''z'']"
      None "DType Complex64 False"]
  by (simp add: assert_same_base_type_def tensor_def item_type_def base_dtype_eq
      is_floating_kind)

end
